theory Spec2Isabelle
  imports Complex_Main "HOL-Library.Word" "HOL-Library.Signed_Division"
begin

unbundle bit_operations_syntax

section \<open>Strings\<close>

text \<open>
  JavaScript strings are sequences of 16-bit code units. They are modelled here as
  \<open>string\<close>, that is lists of 8-bit code units (the Latin-1 range); every literal that
  \<^verbatim>\<open>script.js\<close> and \<^verbatim>\<open>js/utils.js\<close> compare against is ASCII.
\<close>

definition lowerChar :: "char \<Rightarrow> char" where
  "lowerChar c =
     (let n = (of_char c :: nat)
      in if (65 \<le> n \<and> n \<le> 90) \<or> (192 \<le> n \<and> n \<le> 222 \<and> n \<noteq> 215)
         then char_of (n + 32) else c)"

definition toLowerCase :: "string \<Rightarrow> string" where
  "toLowerCase s = map lowerChar s"

text \<open>\<^verbatim>\<open>s.startsWith(p)\<close>, the test behind every literal search below.\<close>

fun startsWith :: "string \<Rightarrow> string \<Rightarrow> bool" where
  "startsWith s [] = True"
| "startsWith [] (p # ps) = False"
| "startsWith (c # cs) (p # ps) = (c = p \<and> startsWith cs ps)"

text \<open>\<^verbatim>\<open>s.includes(p)\<close>: \<open>p\<close> occurs in \<open>s\<close> as a contiguous substring.\<close>

fun includes_str :: "string \<Rightarrow> string \<Rightarrow> bool" where
  "includes_str [] p = (p = [])"
| "includes_str (c # cs) p = (startsWith (c # cs) p \<or> includes_str cs p)"

section \<open>Categorizer\<close>

text \<open>
  \<^verbatim>\<open>categorizeEvent(title, description)\<close> of \<^verbatim>\<open>script.js\<close>, lines 474-568. The
  arguments are strings (a missing one is replaced by the empty string before anything
  else happens, so the empty string stands for it). The rules are evaluated in the order
  of the source and each pushes its tag.
\<close>

record categorization =
  tags :: "string list"
  primary :: string

definition categorizeEvent :: "string \<Rightarrow> string \<Rightarrow> categorization" where
  "categorizeEvent title description =
     (let titleLower = toLowerCase title;
          descLower = toLowerCase description;
          combined = titleLower @ '' '' @ descLower;
          t1 = (if includes_str descLower ''drop in'' \<or> includes_str descLower ''drop-in''
                   \<or> includes_str combined ''drop in'' \<or> includes_str combined ''drop-in''
                then [''drop-in''] else []);
          t2 = (if includes_str combined ''support'' \<or> includes_str combined ''counselling''
                   \<or> includes_str combined ''therapy'' \<or> includes_str combined ''help''
                   \<or> includes_str combined ''advice'' \<or> includes_str combined ''welfare''
                then [''support''] else []);
          t3 = (if includes_str combined ''breakfast club''
                   \<or> (includes_str combined ''breakfast'' \<and> \<not> includes_str combined ''clay pigeon'')
                   \<or> (includes_str combined ''naafi break'' \<and> \<not> includes_str descLower ''drop in'')
                then [''breakfast-club''] else []);
          t4 = (if includes_str combined ''meeting'' \<or> includes_str combined ''branch meeting''
                   \<or> includes_str combined ''association'' \<or> includes_str combined ''rbl''
                   \<or> includes_str combined ''royal british legion'' \<or> includes_str combined ''dli''
                then [''meeting''] else []);
          t5 = (if includes_str combined ''workshop'' \<or> includes_str combined ''training''
                   \<or> includes_str combined ''course'' \<or> includes_str combined ''seminar''
                then [''workshop''] else []);
          t6 = (if includes_str combined ''social'' \<or> includes_str combined ''mixer''
                   \<or> includes_str combined ''party'' \<or> includes_str combined ''celebration''
                then [''social''] else []);
          t7 = (if includes_str combined ''clay pigeon'' \<or> includes_str combined ''shooting''
                   \<or> includes_str titleLower ''sport'' \<or> includes_str combined ''football''
                   \<or> includes_str combined ''rugby'' \<or> includes_str combined ''sailing''
                   \<or> includes_str combined ''fishing'' \<or> includes_str combined ''golf''
                   \<or> includes_str combined ''cycling'' \<or> includes_str combined ''walking''
                   \<or> includes_str combined ''hiking'' \<or> includes_str combined ''swimming''
                   \<or> includes_str combined ''offshore sailing''
                then [''sport''] else []);
          ts = t1 @ t2 @ t3 @ t4 @ t5 @ t6 @ t7
      in \<lparr>tags = ts, primary = (case ts of [] \<Rightarrow> ''other'' | t # _ \<Rightarrow> t)\<rparr>)"

section \<open>Location resolver\<close>

record coords =
  lat :: real
  lng :: real

text \<open>
  \<^verbatim>\<open>generateUniqueCoordinates(location, baseCoords)\<close>, \<^verbatim>\<open>script.js\<close> lines 419-437.
  The loop keeps \<^verbatim>\<open>hash\<close> a 32-bit integer: \<^verbatim>\<open>hash << 5\<close> wraps to 32 bits and
  \<^verbatim>\<open>hash & hash\<close> wraps the sum again, so one round is word arithmetic. The value is
  then read as a signed number: \<^verbatim>\<open>%\<close> is the remainder that takes the sign of the
  dividend (\<open>smod\<close>) and \<^verbatim>\<open>>>\<close> is the arithmetic shift. The offsets are computed
  in exact arithmetic over \<open>real\<close>, the idealisation of the IEEE doubles of the source.
\<close>

fun hashLoop :: "32 word \<Rightarrow> string \<Rightarrow> 32 word" where
  "hashLoop hash [] = hash"
| "hashLoop hash (c # cs) =
     (let h = push_bit 5 hash - hash + of_nat (of_char c)
      in hashLoop (h AND h) cs)"

definition latOffset :: "32 word \<Rightarrow> real" where
  "latOffset hash = (real_of_int (sint hash smod 1000) / 1000 - 0.5) * 0.008"

definition lngOffset :: "32 word \<Rightarrow> real" where
  "lngOffset hash = (real_of_int (sint (signed_drop_bit 10 hash) smod 1000) / 1000 - 0.5) * 0.008"

definition generateUniqueCoordinates :: "string \<Rightarrow> coords \<Rightarrow> coords" where
  "generateUniqueCoordinates location baseCoords =
     (let hash = hashLoop 0 location
      in \<lparr>lat = lat baseCoords + latOffset hash, lng = lng baseCoords + lngOffset hash\<rparr>)"

text \<open>
  What the resolver reads of \<^verbatim>\<open>window.CALENDAR_CONFIG\<close>. The object itself may be
  absent (\<open>None\<close>), and so may each of the two optional fields.
\<close>

record calendar_config =
  ENABLE_GEOCODING :: bool
  GEOCODING_API_KEY :: "string option"
  DEFAULT_REGION :: "coords option"

text \<open>
  Every way a request of \<^verbatim>\<open>geocodeWithGoogle\<close> can end: \<^verbatim>\<open>fetch\<close> rejects, the
  response is not \<^verbatim>\<open>ok\<close>, its body is not JSON, or the body is read. Of the body the
  code reads \<^verbatim>\<open>status\<close> and \<^verbatim>\<open>results\<close>, and of the first result
  \<^verbatim>\<open>geometry.location\<close>, which raises a \<^verbatim>\<open>TypeError\<close> when the result has no
  geometry.
\<close>

datatype geo_result = Located coords | NoGeometry

record geocode_data =
  status :: string
  results :: "geo_result list option"

datatype fetch_outcome = Rejected | NotOk nat | InvalidJson | Ok geocode_data

datatype error =
    NetworkError
  | HttpError nat
  | SyntaxError
  | TypeError
  | ApiKeyIssue
  | OverQueryLimit
  | NoResultsFound
  | GoogleApiError string
  | PostcodeNotFound

text \<open>\<^verbatim>\<open>geocodeWithGoogle(address, venueName)\<close>, lines 379-417: a value or a raised error.\<close>

definition geocodeWithGoogle ::
  "(string \<Rightarrow> fetch_outcome) \<Rightarrow> string \<Rightarrow> string option \<Rightarrow> error + coords" where
  "geocodeWithGoogle fetch address venueName =
     (case fetch address of
        Rejected \<Rightarrow> Inl NetworkError
      | NotOk code \<Rightarrow> Inl (HttpError code)
      | InvalidJson \<Rightarrow> Inl SyntaxError
      | Ok data \<Rightarrow>
          (case (if status data = ''OK'' then results data else None) of
             Some (Located location # _) \<Rightarrow> Inr location
           | Some (NoGeometry # _) \<Rightarrow> Inl TypeError
           | _ \<Rightarrow>
               if status data = ''REQUEST_DENIED'' then Inl ApiKeyIssue
               else if status data = ''OVER_QUERY_LIMIT'' then Inl OverQueryLimit
               else if status data = ''ZERO_RESULTS'' then Inl NoResultsFound
               else Inl (GoogleApiError (status data))))"

text \<open>
  The guard of \<^verbatim>\<open>getCoordinatesForLocation\<close>: geocoding is switched on and the key is
  a non-empty string other than the placeholder.
\<close>

definition geocodingEnabled :: "calendar_config option \<Rightarrow> bool" where
  "geocodingEnabled config =
     (case config of
        None \<Rightarrow> False
      | Some c \<Rightarrow>
          ENABLE_GEOCODING c \<and>
          (case GEOCODING_API_KEY c of
             None \<Rightarrow> False
           | Some key \<Rightarrow> key \<noteq> [] \<and> key \<noteq> ''your-google-geocoding-api-key-here''))"

definition fallbackCoords :: "calendar_config option \<Rightarrow> coords" where
  "fallbackCoords config =
     (case config of
        Some c \<Rightarrow>
          (case DEFAULT_REGION c of
             Some region \<Rightarrow> region
           | None \<Rightarrow> \<lparr>lat = 54.9783, lng = -1.6178\<rparr>)
      | None \<Rightarrow> \<lparr>lat = 54.9783, lng = -1.6178\<rparr>)"

text \<open>
  \<^verbatim>\<open>getCoordinatesForLocation(location, venueName)\<close>, lines 345-376. The
  \<^verbatim>\<open>try\<close>/\<^verbatim>\<open>catch\<close> around the geocoder turns every error it raises into the fall
  through to the hash coordinates. The result type keeps the error alternative, so that
  "no error reaches the caller" is a statement about the function and not about its type.
\<close>

definition getCoordinatesForLocation ::
  "calendar_config option \<Rightarrow> (string \<Rightarrow> fetch_outcome) \<Rightarrow> string \<Rightarrow> string option
     \<Rightarrow> error + coords" where
  "getCoordinatesForLocation config fetch location venueName =
     (if geocodingEnabled config
      then (case geocodeWithGoogle fetch location venueName of
              Inr googleCoords \<Rightarrow> Inr googleCoords
            | Inl e \<Rightarrow> Inr (generateUniqueCoordinates location (fallbackCoords config)))
      else Inr (generateUniqueCoordinates location (fallbackCoords config)))"

text \<open>The configuration of \<^verbatim>\<open>config.example.js\<close>: it sets no geocoding key.\<close>

definition exampleConfig :: calendar_config where
  "exampleConfig =
     \<lparr>ENABLE_GEOCODING = True, GEOCODING_API_KEY = None,
      DEFAULT_REGION = Some \<lparr>lat = 54.9783, lng = -1.6178\<rparr>\<rparr>"

section \<open>Sanitizer\<close>

text \<open>
  \<^verbatim>\<open>s.replace(/pat/g, rep)\<close> for a pattern without metacharacters: the text is
  scanned from the left, every occurrence found is replaced and the scan goes on behind
  it.
\<close>

function replaceAll :: "string \<Rightarrow> string \<Rightarrow> string \<Rightarrow> string" where
  "replaceAll pat rep [] = []"
| "replaceAll pat rep (c # cs) =
     (if pat \<noteq> [] \<and> startsWith (c # cs) pat
      then rep @ replaceAll pat rep (drop (length pat) (c # cs))
      else c # replaceAll pat rep cs)"
  by pat_completeness auto
termination
  by (relation "measure (\<lambda>(pat, rep, s). length s)") (auto simp: neq_Nil_conv)

text \<open>
  \<^verbatim>\<open>s.replace(/<[^>]*>/g, "")\<close>: a match starts at a \<^verbatim>\<open><\<close> that has a
  \<^verbatim>\<open>>\<close> somewhere behind it and ends at the first such \<^verbatim>\<open>>\<close>.
\<close>

function stripTags :: "string \<Rightarrow> string" where
  "stripTags [] = []"
| "stripTags (c # cs) =
     (if c = CHR ''<'' \<and> CHR ''>'' \<in> set cs
      then stripTags (tl (dropWhile (\<lambda>x. x \<noteq> CHR ''>'') cs))
      else c # stripTags cs)"
  by pat_completeness auto
termination
  by (relation "measure length")
     (auto simp: le_imp_less_Suc length_dropWhile_le less_Suc_eq_le diff_le_mono2
           intro: le_trans [OF diff_le_self length_dropWhile_le])

text \<open>The text still holds a match of \<^verbatim>\<open>/<[^>]*>/\<close>, that is a markup tag.\<close>

fun hasTag :: "string \<Rightarrow> bool" where
  "hasTag [] = False"
| "hasTag (c # cs) = ((c = CHR ''<'' \<and> CHR ''>'' \<in> set cs) \<or> hasTag cs)"

text \<open>
  White space as \<^verbatim>\<open>trim()\<close> and the class \<^verbatim>\<open>\s\<close> see it, in the 8-bit range: tab,
  line feed, vertical tab, form feed, carriage return, space and the no-break space.
\<close>

definition isSpace :: "char \<Rightarrow> bool" where
  "isSpace c = (c = CHR 0x09 \<or> c = CHR 0x0A \<or> c = CHR 0x0B \<or> c = CHR 0x0C
                \<or> c = CHR 0x0D \<or> c = CHR 0x20 \<or> c = CHR 0xA0)"

definition trim :: "string \<Rightarrow> string" where
  "trim s = rev (dropWhile isSpace (rev (dropWhile isSpace s)))"

text \<open>
  \<^verbatim>\<open>sanitiseText(text)\<close> of \<^verbatim>\<open>script.js\<close>, lines 167-183. The object
  \<^verbatim>\<open>window.EventMapUtils\<close> that \<^verbatim>\<open>js/utils.js\<close> exports has the properties
  \<^verbatim>\<open>sanitizeText\<close> and \<^verbatim>\<open>sanitizeHtml\<close> and none called \<^verbatim>\<open>sanitiseText\<close>, so
  the test \<^verbatim>\<open>this.utils && this.utils.sanitiseText\<close> fails and the method runs its
  own chain of replacements. \<open>None\<close> stands for \<^verbatim>\<open>null\<close> and \<^verbatim>\<open>undefined\<close>.
\<close>

definition sanitiseText :: "string option \<Rightarrow> string" where
  "sanitiseText text =
     (case text of
        None \<Rightarrow> []
      | Some t \<Rightarrow>
          if t = [] then []
          else trim
            (replaceAll ''&#39;'' [CHR 0x27]
              (replaceAll ''&quot;'' [CHR 0x22]
                (replaceAll ''&amp;'' ''&''
                  (replaceAll ''&gt;'' ''>''
                    (replaceAll ''&lt;'' ''<'' (stripTags t)))))))"

text \<open>
  \<^verbatim>\<open>sanitizeText(text)\<close> of \<^verbatim>\<open>js/utils.js\<close>, lines 91-103. It stores the text as
  the \<^verbatim>\<open>textContent\<close> of a fresh element and reads \<^verbatim>\<open>innerHTML\<close> back: the
  browser serialises the one text node, escaping \<^verbatim>\<open>&\<close>, \<^verbatim>\<open><\<close>, \<^verbatim>\<open>>\<close> and the
  no-break space (HTML Standard, "escaping a string"). \<open>innerHTMLOfText\<close> is that
  platform step; the replacements that follow are the source's.
\<close>

definition escapeChar :: "char \<Rightarrow> string" where
  "escapeChar c =
     (if c = CHR ''&'' then ''&amp;''
      else if c = CHR ''<'' then ''&lt;''
      else if c = CHR ''>'' then ''&gt;''
      else if c = CHR 0xA0 then ''&nbsp;''
      else [c])"

definition innerHTMLOfText :: "string \<Rightarrow> string" where
  "innerHTMLOfText t = concat (map escapeChar t)"

definition sanitizeText :: "string option \<Rightarrow> string" where
  "sanitizeText text =
     (case text of
        None \<Rightarrow> []
      | Some t \<Rightarrow>
          if t = [] then []
          else trim
            (replaceAll ''&#39;'' [CHR 0x27]
              (replaceAll ''&quot;'' [CHR 0x22]
                (replaceAll ''&amp;'' ''&''
                  (replaceAll ''&gt;'' ''>''
                    (replaceAll ''&lt;'' ''<'' (innerHTMLOfText t)))))))"


section \<open>Search query classifier and postcode geocoder\<close>

text \<open>
  The regular expressions of \<^verbatim>\<open>isPostcode\<close> and \<^verbatim>\<open>geocodePostcode\<close> are built
  from three combinators. A matcher maps a text to the remainders that are left after
  each way of matching a prefix of it; \<^verbatim>\<open>/^...$/.test(s)\<close> holds when some way leaves
  nothing.
\<close>

type_synonym matcher = "string \<Rightarrow> string list"

definition rxClass :: "(char \<Rightarrow> bool) \<Rightarrow> matcher" where
  "rxClass P s = (case s of [] \<Rightarrow> [] | c # cs \<Rightarrow> if P c then [cs] else [])"

definition rxOpt :: "matcher \<Rightarrow> matcher" where
  "rxOpt m s = m s @ [s]"

fun rxSeq :: "matcher list \<Rightarrow> matcher" where
  "rxSeq [] s = [s]"
| "rxSeq (m # ms) s = concat (map (rxSeq ms) (m s))"

definition rxTest :: "matcher list \<Rightarrow> string \<Rightarrow> bool" where
  "rxTest ms s = ([] \<in> set (rxSeq ms s))"

definition isUpper :: "char \<Rightarrow> bool" where
  "isUpper c = (65 \<le> (of_char c :: nat) \<and> (of_char c :: nat) \<le> 90)"

definition isLetter :: "char \<Rightarrow> bool" where
  "isLetter c = (isUpper c \<or> (97 \<le> (of_char c :: nat) \<and> (of_char c :: nat) \<le> 122))"

definition isDigit :: "char \<Rightarrow> bool" where
  "isDigit c = (48 \<le> (of_char c :: nat) \<and> (of_char c :: nat) \<le> 57)"

text \<open>
  \<^verbatim>\<open>/^[A-Z]{1,2}[0-9][A-Z0-9]?\s?[0-9][A-Z]{2}$/i\<close> and
  \<^verbatim>\<open>/^[A-Z]{1,2}[0-9][A-Z0-9]?$/i\<close> of \<^verbatim>\<open>isPostcode\<close>; with the flag \<^verbatim>\<open>i\<close> the
  class \<^verbatim>\<open>[A-Z]\<close> takes the letters of both cases.
\<close>

definition fullPostcodeRegex :: "matcher list" where
  "fullPostcodeRegex =
     [rxClass isLetter, rxOpt (rxClass isLetter), rxClass isDigit,
      rxOpt (rxClass (\<lambda>c. isLetter c \<or> isDigit c)), rxOpt (rxClass isSpace),
      rxClass isDigit, rxClass isLetter, rxClass isLetter]"

definition partialPostcodeRegex :: "matcher list" where
  "partialPostcodeRegex =
     [rxClass isLetter, rxOpt (rxClass isLetter), rxClass isDigit,
      rxOpt (rxClass (\<lambda>c. isLetter c \<or> isDigit c))]"

text \<open>
  \<^verbatim>\<open>/^[A-Z]{1,2}[0-9][A-Z0-9]?\s[0-9][A-Z]{2}$/\<close> and
  \<^verbatim>\<open>/^[A-Z]{1,2}[0-9][A-Z0-9]?[0-9][A-Z]{2}$/\<close> of \<^verbatim>\<open>geocodePostcode\<close>, which are
  case sensitive.
\<close>

definition spacedPostcodeRegex :: "matcher list" where
  "spacedPostcodeRegex =
     [rxClass isUpper, rxOpt (rxClass isUpper), rxClass isDigit,
      rxOpt (rxClass (\<lambda>c. isUpper c \<or> isDigit c)), rxClass isSpace,
      rxClass isDigit, rxClass isUpper, rxClass isUpper]"

definition compactPostcodeRegex :: "matcher list" where
  "compactPostcodeRegex =
     [rxClass isUpper, rxOpt (rxClass isUpper), rxClass isDigit,
      rxOpt (rxClass (\<lambda>c. isUpper c \<or> isDigit c)),
      rxClass isDigit, rxClass isUpper, rxClass isUpper]"

text \<open>\<^verbatim>\<open>s.replace(/\s+/g, " ")\<close>: every run of white space becomes one space.\<close>

function collapseSpaces :: "string \<Rightarrow> string" where
  "collapseSpaces [] = []"
| "collapseSpaces (c # cs) =
     (if isSpace c then CHR '' '' # collapseSpaces (dropWhile isSpace cs)
      else c # collapseSpaces cs)"
  by pat_completeness auto
termination
  by (relation "measure length") (auto simp: le_imp_less_Suc length_dropWhile_le)

text \<open>\<^verbatim>\<open>s.replace(/\s+/g, "")\<close> and \<^verbatim>\<open>s.replace(/\s/g, "")\<close>: all white space goes.\<close>

definition removeSpaces :: "string \<Rightarrow> string" where
  "removeSpaces s = filter (\<lambda>c. \<not> isSpace c) s"

text \<open>
  \<^verbatim>\<open>toUpperCase()\<close> on the 8-bit range. The sharp s (\<^verbatim>\<open>0xDF\<close>) becomes the two
  letters \<^verbatim>\<open>SS\<close>. The two code units whose upper case lies outside the range
  (\<^verbatim>\<open>0xB5\<close> and \<^verbatim>\<open>0xFF\<close>) are left as they are: neither they nor their upper
  case is matched by any class of the expressions above.
\<close>

definition upperChars :: "char \<Rightarrow> string" where
  "upperChars c =
     (let n = (of_char c :: nat)
      in if n = 223 then ''SS''
         else if (97 \<le> n \<and> n \<le> 122) \<or> (224 \<le> n \<and> n \<le> 254 \<and> n \<noteq> 247)
         then [char_of (n - 32)] else [c])"

definition toUpperCase :: "string \<Rightarrow> string" where
  "toUpperCase s = concat (map upperChars s)"

text \<open>\<^verbatim>\<open>isPostcode(searchQuery)\<close>, \<^verbatim>\<open>script.js\<close> lines 1554-1567.\<close>

definition isPostcode :: "string \<Rightarrow> bool" where
  "isPostcode searchQuery =
     (let cleanQuery = trim (removeSpaces searchQuery)
      in rxTest fullPostcodeRegex (trim (collapseSpaces searchQuery))
         \<or> rxTest partialPostcodeRegex cleanQuery)"

text \<open>
  What \<^verbatim>\<open>geocodePostcode\<close> returns: the coordinate with the search radius and the
  partial-postcode flag.
\<close>

record search_coords = coords +
  radius :: real
  isPartial :: bool

text \<open>
  A request to the Nominatim service: of the body the code reads the first place, whose
  \<^verbatim>\<open>lat\<close> and \<^verbatim>\<open>lon\<close> it passes through \<^verbatim>\<open>parseFloat\<close>; the places are given
  here with the numbers already read.
\<close>

datatype nominatim_outcome = NRejected | NNotOk nat | NInvalidJson | NOk "coords list"

text \<open>
  The guard of the Google branch reads the free identifier \<^verbatim>\<open>config\<close>, not
  \<^verbatim>\<open>window.CALENDAR_CONFIG\<close>: \<open>None\<close> stands for "no global of that name"
  (\<^verbatim>\<open>typeof config === "undefined"\<close>).
\<close>

definition postcodeGeocodingEnabled :: "calendar_config option \<Rightarrow> bool" where
  "postcodeGeocodingEnabled config =
     (case config of
        None \<Rightarrow> False
      | Some c \<Rightarrow>
          ENABLE_GEOCODING c \<and>
          (case GEOCODING_API_KEY c of
             None \<Rightarrow> False
           | Some key \<Rightarrow> key \<noteq> [] \<and> key \<noteq> ''your-geocoding-api-key-here''))"

definition nominatimLookup ::
  "(string \<Rightarrow> nominatim_outcome) \<Rightarrow> string \<Rightarrow> real \<Rightarrow> bool \<Rightarrow> error + search_coords" where
  "nominatimLookup nominatim searchQuery searchRadius partial =
     (case nominatim searchQuery of
        NRejected \<Rightarrow> Inl NetworkError
      | NInvalidJson \<Rightarrow> Inl SyntaxError
      | NNotOk code \<Rightarrow> Inl PostcodeNotFound
      | NOk [] \<Rightarrow> Inl PostcodeNotFound
      | NOk (place # _) \<Rightarrow>
          Inr \<lparr>lat = lat place, lng = lng place, radius = searchRadius, isPartial = partial\<rparr>)"

text \<open>The body of the \<^verbatim>\<open>try\<close> block of \<^verbatim>\<open>geocodePostcode\<close>, lines 1631-1689.\<close>

definition geocodePostcodeTry ::
  "calendar_config option \<Rightarrow> (string \<Rightarrow> fetch_outcome) \<Rightarrow> (string \<Rightarrow> nominatim_outcome)
     \<Rightarrow> string \<Rightarrow> error + search_coords" where
  "geocodePostcodeTry config google nominatim postcode =
     (let cleanPostcode = toUpperCase (trim (collapseSpaces postcode));
          partial = (\<not> rxTest spacedPostcodeRegex cleanPostcode
                     \<and> \<not> rxTest compactPostcodeRegex (removeSpaces cleanPostcode));
          searchQuery = cleanPostcode;
          searchRadius = 15
      in if postcodeGeocodingEnabled config
         then (case google searchQuery of
                 Rejected \<Rightarrow> Inl NetworkError
               | InvalidJson \<Rightarrow> Inl SyntaxError
               | NotOk code \<Rightarrow> nominatimLookup nominatim searchQuery searchRadius partial
               | Ok data \<Rightarrow>
                   (case results data of
                      Some (Located location # _) \<Rightarrow>
                        Inr \<lparr>lat = lat location, lng = lng location,
                             radius = searchRadius, isPartial = partial\<rparr>
                    | Some (NoGeometry # _) \<Rightarrow> Inl TypeError
                    | _ \<Rightarrow> nominatimLookup nominatim searchQuery searchRadius partial))
         else nominatimLookup nominatim searchQuery searchRadius partial)"

text \<open>
  \<^verbatim>\<open>geocodePostcode(postcode)\<close>, lines 1629-1694: the \<^verbatim>\<open>catch\<close> turns every error
  into \<^verbatim>\<open>null\<close>.
\<close>

definition geocodePostcode ::
  "calendar_config option \<Rightarrow> (string \<Rightarrow> fetch_outcome) \<Rightarrow> (string \<Rightarrow> nominatim_outcome)
     \<Rightarrow> string \<Rightarrow> search_coords option" where
  "geocodePostcode config google nominatim postcode =
     (case geocodePostcodeTry config google nominatim postcode of
        Inl e \<Rightarrow> None
      | Inr found \<Rightarrow> Some found)"

section \<open>Filter and sort engine\<close>

text \<open>
  \<^verbatim>\<open>calculateDistance\<close> and \<^verbatim>\<open>toRadians\<close>, \<^verbatim>\<open>script.js\<close> lines 1535-1551, over
  \<open>real\<close>. \<open>atan2\<close> is \<^verbatim>\<open>Math.atan2(y, x)\<close>.
\<close>

definition toRadians :: "real \<Rightarrow> real" where
  "toRadians degrees = degrees * (pi / 180)"

definition atan2 :: "real \<Rightarrow> real \<Rightarrow> real" where
  "atan2 y x =
     (if 0 < x then arctan (y / x)
      else if x < 0 then (if 0 \<le> y then arctan (y / x) + pi else arctan (y / x) - pi)
      else if 0 < y then pi / 2
      else if y < 0 then - (pi / 2)
      else 0)"

definition calculateDistance :: "real \<Rightarrow> real \<Rightarrow> real \<Rightarrow> real \<Rightarrow> real" where
  "calculateDistance lat1 lng1 lat2 lng2 =
     (let R = 6371;
          dLat = toRadians (lat2 - lat1);
          dLng = toRadians (lng2 - lng1);
          a = sin (dLat / 2) * sin (dLat / 2)
              + cos (toRadians lat1) * cos (toRadians lat2) * sin (dLng / 2) * sin (dLng / 2);
          c = 2 * atan2 (sqrt a) (sqrt (1 - a))
      in R * c)"

text \<open>
  The canonical event. \<^verbatim>\<open>id\<close> is called \<open>eid\<close> here, and the three transient
  fields \<^verbatim>\<open>_searchDistance\<close>, \<^verbatim>\<open>_searchRadius\<close> and \<^verbatim>\<open>_isPartialPostcode\<close> lose
  their underscore; \<open>None\<close> in them stands for a property that is not set. The fields
  \<open>lat\<close> and \<open>lng\<close> come with \<open>coords\<close>.
\<close>

record event = coords +
  eid :: nat
  title :: string
  description :: string
  category :: string
  categories :: "string list"
  date :: string
  time :: string
  startTime :: "string option"
  endTime :: "string option"
  location :: string
  isElapsed :: bool
  searchDistance :: "real option"
  searchRadius :: "real option"
  isPartialPostcode :: "bool option"

text \<open>
  What \<^verbatim>\<open>filterEvents\<close> reads from the page: the three input elements, and
  \<^verbatim>\<open>this.currentDateFilter\<close> with, for every date text, the verdict of the quick
  filter on it, which \<^verbatim>\<open>filterEventsByDate\<close> computes from the clock.
\<close>

record filter_inputs =
  searchInput :: string
  categoryFilter :: string
  dateFilter :: string

datatype date_filter = Today | Week | Month | AllDates

record map_state =
  events :: "event list"
  filteredEvents :: "event list"

definition textMatches :: "string \<Rightarrow> event \<Rightarrow> bool" where
  "textMatches searchQuery ev =
     (includes_str (toLowerCase (title ev)) searchQuery
      \<or> includes_str (toLowerCase (description ev)) searchQuery
      \<or> includes_str (toLowerCase (location ev)) searchQuery)"

text \<open>
  The callback of \<^verbatim>\<open>this.events.filter\<close>, lines 1438-1479: the verdict, and the event
  as the callback leaves it. The three fields are written whenever the distance is
  computed, whatever the verdict; nothing in \<^verbatim>\<open>script.js\<close> removes them.
\<close>

definition matchEvent ::
  "string \<Rightarrow> bool \<Rightarrow> search_coords option \<Rightarrow> string \<Rightarrow> string \<Rightarrow> event \<Rightarrow> bool \<times> event" where
  "matchEvent searchQuery isPostcodeSearch searchCoords categoryFilterValue dateFilterValue ev =
     (let matchesCategory = (categoryFilterValue = [] \<or> category ev = categoryFilterValue
                              \<or> categoryFilterValue \<in> set (categories ev));
          matchesDate = (dateFilterValue = [] \<or> date ev = dateFilterValue)
      in if searchQuery = [] then (matchesCategory \<and> matchesDate, ev)
         else if textMatches searchQuery ev then (matchesCategory \<and> matchesDate, ev)
         else (case (if isPostcodeSearch then searchCoords else None) of
                 None \<Rightarrow> (False, ev)
               | Some sc \<Rightarrow>
                   (let distance = calculateDistance (lat sc) (lng sc) (lat ev) (lng ev);
                        searchRadius' = (if radius sc = 0 then 50 else radius sc)
                    in (distance \<le> searchRadius' \<and> matchesCategory \<and> matchesDate,
                        ev\<lparr>searchDistance := Some distance,
                           searchRadius := Some searchRadius',
                           isPartialPostcode := Some (isPartial sc)\<rparr>))))"

text \<open>\<^verbatim>\<open>filterEventsByDate(events)\<close>, lines 1329-1362.\<close>

definition filterEventsByDate ::
  "date_filter \<Rightarrow> (date_filter \<Rightarrow> string \<Rightarrow> bool) \<Rightarrow> event list \<Rightarrow> event list" where
  "filterEventsByDate currentDateFilter withinRange evs =
     (if currentDateFilter = AllDates then evs
      else filter (\<lambda>ev. withinRange currentDateFilter (date ev)) evs)"

text \<open>The key of the distance sort: \<^verbatim>\<open>a._searchDistance || 0\<close>.\<close>

definition distanceKey :: "event \<Rightarrow> real" where
  "distanceKey ev = (case searchDistance ev of None \<Rightarrow> 0 | Some d \<Rightarrow> d)"

text \<open>
  \<^verbatim>\<open>filterEvents()\<close>, lines 1422-1499, up to the two lists it leaves behind. The event
  objects are shared between \<^verbatim>\<open>this.events\<close> and \<^verbatim>\<open>this.filteredEvents\<close>, and the
  callback has written to all of them before either list is read again, so both lists
  hold the events as the callback left them. \<^verbatim>\<open>Array.prototype.sort\<close> is stable, as
  \<open>sort_key\<close> is. The calls that redraw the list and the markers are left out.
\<close>

definition filterEvents ::
  "calendar_config option \<Rightarrow> (string \<Rightarrow> fetch_outcome) \<Rightarrow> (string \<Rightarrow> nominatim_outcome)
     \<Rightarrow> date_filter \<Rightarrow> (date_filter \<Rightarrow> string \<Rightarrow> bool)
     \<Rightarrow> filter_inputs \<Rightarrow> map_state \<Rightarrow> map_state" where
  "filterEvents config google nominatim currentDateFilter withinRange inputs st =
     (let searchQuery = trim (toLowerCase (searchInput inputs));
          categoryFilterValue = categoryFilter inputs;
          dateFilterValue = dateFilter inputs;
          isPostcodeSearch = isPostcode searchQuery;
          searchCoords = (if searchQuery \<noteq> [] \<and> isPostcodeSearch
                          then geocodePostcode config google nominatim searchQuery
                          else None);
          verdicts = map (matchEvent searchQuery isPostcodeSearch searchCoords
                            categoryFilterValue dateFilterValue) (events st);
          kept = filterEventsByDate currentDateFilter withinRange
                   (map snd (filter fst verdicts))
      in \<lparr>events = map snd verdicts,
          filteredEvents = (if isPostcodeSearch \<and> searchCoords \<noteq> None
                            then sort_key distanceKey kept else kept)\<rparr>)"

text \<open>
  Two events on one meridian and a Nominatim service that places the query "TS28" at
  54.5 degrees north and every other query at 55 degrees north, both on that meridian:
  the state and the services of the examples for the search annotations.
\<close>

definition coffeeMorning :: event where
  "coffeeMorning =
     \<lparr>lat = 55.5, lng = - 1.5, eid = 1, title = ''Coffee morning NE1'',
      description = ''Drop in for a chat'', category = ''drop-in'',
      categories = [''drop-in''], date = ''2026-12-01'', time = ''All day'',
      startTime = None, endTime = None, location = ''Newcastle'', isElapsed = False,
      searchDistance = None, searchRadius = None, isPartialPostcode = None\<rparr>"

definition breakfastClub :: event where
  "breakfastClub =
     \<lparr>lat = 54.9, lng = - 1.5, eid = 2, title = ''Breakfast club'',
      description = ''Breakfast and chat'', category = ''breakfast-club'',
      categories = [''breakfast-club''], date = ''2026-12-02'', time = ''All day'',
      startTime = None, endTime = None, location = ''Gateshead'', isElapsed = False,
      searchDistance = None, searchRadius = None, isPartialPostcode = None\<rparr>"

definition meridianNominatim :: "string \<Rightarrow> nominatim_outcome" where
  "meridianNominatim q =
     (if q = ''TS28'' then NOk [\<lparr>lat = 54.5, lng = - 1.5\<rparr>]
      else NOk [\<lparr>lat = 55, lng = - 1.5\<rparr>])"

definition search :: "string \<Rightarrow> map_state \<Rightarrow> map_state" where
  "search query st =
     filterEvents None (\<lambda>q. Rejected) meridianNominatim AllDates (\<lambda>f d. True)
       \<lparr>searchInput = query, categoryFilter = [], dateFilter = []\<rparr> st"

section \<open>Event normalizer\<close>

text \<open>
  A calendar item as the feed gives it. \<open>None\<close> is a property that is missing. The
  fields \<^verbatim>\<open>description\<close>, \<^verbatim>\<open>location\<close> and \<^verbatim>\<open>end\<close> of the item and \<^verbatim>\<open>date\<close> of
  its start carry a prime, since the event below has fields of the same names.
\<close>

record time_spec =
  date' :: "string option"
  dateTime :: "string option"

record calendar_item =
  summary :: "string option"
  description' :: "string option"
  location' :: "string option"
  start :: "time_spec option"
  end' :: "time_spec option"
  recurringEventId :: "string option"

text \<open>
  The clock and the \<^verbatim>\<open>Date\<close> object of the platform. A time value is a number of
  milliseconds, or \<open>None\<close> for the value of an invalid date, which compares false with
  everything. \<open>parseDate\<close> is \<^verbatim>\<open>new Date(text)\<close>, \<open>startOfDay\<close> is
  \<^verbatim>\<open>setHours(0, 0, 0, 0)\<close>, \<open>formatTime\<close> is the \<^verbatim>\<open>toLocaleTimeString\<close> call of
  \<^verbatim>\<open>formatTime\<close> and \<open>todayIso\<close> is \<^verbatim>\<open>new Date().toISOString().split("T")[0]\<close>.
\<close>

record clock =
  now :: int
  parseDate :: "string \<Rightarrow> int option"
  startOfDay :: "int \<Rightarrow> int"
  formatTime :: "int option \<Rightarrow> string"
  todayIso :: string

definition truthy :: "string option \<Rightarrow> bool" where
  "truthy s = (case s of None \<Rightarrow> False | Some t \<Rightarrow> t \<noteq> [])"

text \<open>\<^verbatim>\<open>a || b\<close> for an optional string and a default.\<close>

definition orDefault :: "string option \<Rightarrow> string \<Rightarrow> string" where
  "orDefault s d = (case s of None \<Rightarrow> d | Some t \<Rightarrow> if t = [] then d else t)"

definition jsLess :: "int option \<Rightarrow> int option \<Rightarrow> bool" where
  "jsLess a b = (case (a, b) of (Some x, Some y) \<Rightarrow> x < y | _ \<Rightarrow> False)"

definition startDate :: "calendar_item \<Rightarrow> string option" where
  "startDate item = (case start item of None \<Rightarrow> None | Some s \<Rightarrow> date' s)"

definition startDateTime :: "calendar_item \<Rightarrow> string option" where
  "startDateTime item = (case start item of None \<Rightarrow> None | Some s \<Rightarrow> dateTime s)"

text \<open>\<^verbatim>\<open>new Date(item.start?.dateTime || item.start?.date)\<close>, line 82.\<close>

definition eventDate :: "clock \<Rightarrow> calendar_item \<Rightarrow> int option" where
  "eventDate clk item =
     (case (if truthy (startDateTime item) then startDateTime item else startDate item) of
        None \<Rightarrow> None
      | Some text \<Rightarrow> parseDate clk text)"

text \<open>Lines 83-85: the end of the day for an item that has only a date.\<close>

definition eventDateTime :: "clock \<Rightarrow> calendar_item \<Rightarrow> int option" where
  "eventDateTime clk item =
     (if truthy (startDateTime item) then parseDate clk (the (startDateTime item))
      else parseDate clk
             ((case startDate item of None \<Rightarrow> ''undefined'' | Some d \<Rightarrow> d) @ ''T23:59:59''))"

definition today :: "clock \<Rightarrow> int" where
  "today clk = startOfDay clk (now clk)"

definition eventDateOnly :: "clock \<Rightarrow> calendar_item \<Rightarrow> int option" where
  "eventDateOnly clk item = map_option (startOfDay clk) (eventDate clk item)"

text \<open>The test of line 92, \<^verbatim>\<open>eventDateOnly < today\<close>.\<close>

definition beforeToday :: "clock \<Rightarrow> calendar_item \<Rightarrow> bool" where
  "beforeToday clk item = jsLess (eventDateOnly clk item) (Some (today clk))"

definition excludedRecurringEventIds :: "string list" where
  "excludedRecurringEventIds =
     [''2scpgqhjtjh5tc33cg3jm3ik5c'', ''30ed1sa1ev6k8kgp0ucg1mq24j_R20260105'']"

definition isExcludedRecurringEvent :: "string option \<Rightarrow> bool" where
  "isExcludedRecurringEvent rid =
     (case rid of None \<Rightarrow> False | Some r \<Rightarrow> r \<in> set excludedRecurringEventIds)"

text \<open>
  \<^verbatim>\<open>transformCalendarItem\<close> calls \<^verbatim>\<open>this.sanitiseHtml\<close>. The class \<^verbatim>\<open>EventMap\<close> of
  \<^verbatim>\<open>script.js\<close> defines \<^verbatim>\<open>sanitiseText\<close> and no method of that name, and nothing
  assigns one (\<^verbatim>\<open>js/utils.js\<close> has a function \<^verbatim>\<open>sanitizeHtml\<close>, which the class
  does not call): the call raises a \<^verbatim>\<open>TypeError\<close>.
\<close>

definition sanitiseHtml :: "string \<Rightarrow> error + string" where
  "sanitiseHtml html = Inl TypeError"

text \<open>\<^verbatim>\<open>extractDate\<close>, \<^verbatim>\<open>extractStartTime\<close>, \<^verbatim>\<open>extractEndTime\<close>, \<^verbatim>\<open>extractTime\<close>.\<close>

definition extractDate :: "clock \<Rightarrow> calendar_item \<Rightarrow> string" where
  "extractDate clk item =
     (if truthy (startDate item) then the (startDate item)
      else if truthy (startDateTime item)
      then takeWhile (\<lambda>c. c \<noteq> CHR ''T'') (the (startDateTime item))
      else todayIso clk)"

definition extractStartTime :: "clock \<Rightarrow> calendar_item \<Rightarrow> string option" where
  "extractStartTime clk item =
     (if truthy (startDateTime item)
      then Some (formatTime clk (parseDate clk (the (startDateTime item))))
      else None)"

definition extractEndTime :: "clock \<Rightarrow> calendar_item \<Rightarrow> string option" where
  "extractEndTime clk item =
     (case end' item of
        None \<Rightarrow> None
      | Some e \<Rightarrow>
          if truthy (dateTime e)
          then Some (formatTime clk (parseDate clk (the (dateTime e))))
          else None)"

definition extractTime :: "clock \<Rightarrow> calendar_item \<Rightarrow> string" where
  "extractTime clk item =
     (let startTime' = extractStartTime clk item;
          endTime' = extractEndTime clk item
      in if \<not> truthy startTime' \<and> \<not> truthy endTime' then ''All day''
         else if truthy startTime' \<and> truthy endTime' \<and> startTime' \<noteq> endTime'
         then the startTime' @ '' - '' @ the endTime'
         else orDefault startTime' ''Time TBD'')"

text \<open>\<^verbatim>\<open>transformCalendarItem(item, id)\<close>, lines 132-165.\<close>

definition transformCalendarItem ::
  "clock \<Rightarrow> calendar_config option \<Rightarrow> (string \<Rightarrow> fetch_outcome) \<Rightarrow> calendar_item \<Rightarrow> nat
     \<Rightarrow> error + event" where
  "transformCalendarItem clk config fetch item ident =
     (let title' = sanitiseText (Some (orDefault (summary item) ''Unnamed Event''))
      in case sanitiseHtml (orDefault (description' item) ''No description available'') of
           Inl e \<Rightarrow> Inl e
         | Inr description'' \<Rightarrow>
             (let location'' = sanitiseText (Some (orDefault (location' item) ''Location TBD''));
                  categorization = categorizeEvent title' description''
              in case getCoordinatesForLocation config fetch location'' (Some title') of
                   Inl e \<Rightarrow> Inl e
                 | Inr coordinates \<Rightarrow>
                     Inr \<lparr>lat = lat coordinates, lng = lng coordinates, eid = ident,
                          title = title', description = description'',
                          category = primary categorization,
                          categories = tags categorization,
                          date = extractDate clk item, time = extractTime clk item,
                          startTime = extractStartTime clk item,
                          endTime = extractEndTime clk item, location = location'',
                          isElapsed = False, searchDistance = None, searchRadius = None,
                          isPartialPostcode = None\<rparr>))"

text \<open>
  The loop of \<^verbatim>\<open>processCalendarItems\<close>, lines 70-124: the items still to come and the
  events pushed so far. An error raised while an item is processed is caught and the
  item is skipped.
\<close>

fun processLoop ::
  "clock \<Rightarrow> calendar_config option \<Rightarrow> (string \<Rightarrow> fetch_outcome) \<Rightarrow> calendar_item list
     \<Rightarrow> event list \<Rightarrow> event list" where
  "processLoop clk config fetch [] processedEvents = processedEvents"
| "processLoop clk config fetch (item # items) processedEvents =
     (if isExcludedRecurringEvent (recurringEventId item)
      then processLoop clk config fetch items processedEvents
      else if beforeToday clk item
      then processLoop clk config fetch items processedEvents
      else if includes_str (toLowerCase (orDefault (summary item) [])) ''useful information''
      then processLoop clk config fetch items processedEvents
      else (case transformCalendarItem clk config fetch item (length processedEvents + 1) of
              Inl e \<Rightarrow> processLoop clk config fetch items processedEvents
            | Inr ev \<Rightarrow>
                (let ev' = ev\<lparr>isElapsed :=
                             (jsLess (eventDateTime clk item) (Some (now clk))
                              \<and> eventDateOnly clk item = Some (today clk))\<rparr>
                 in if lat ev' = 0 \<and> lng ev' = 0
                    then processLoop clk config fetch items processedEvents
                    else processLoop clk config fetch items (processedEvents @ [ev']))))"

text \<open>
  The final sort, \<^verbatim>\<open>(a, b) => new Date(a.date) - new Date(b.date)\<close>: a stable
  insertion sort with that comparison, where a difference that is not a number counts
  as zero.
\<close>

definition dateAfter :: "clock \<Rightarrow> event \<Rightarrow> event \<Rightarrow> bool" where
  "dateAfter clk a b = jsLess (parseDate clk (date b)) (parseDate clk (date a))"

fun insertByDate :: "clock \<Rightarrow> event \<Rightarrow> event list \<Rightarrow> event list" where
  "insertByDate clk ev [] = [ev]"
| "insertByDate clk ev (x # xs) =
     (if dateAfter clk ev x then x # insertByDate clk ev xs else ev # x # xs)"

definition sortByDate :: "clock \<Rightarrow> event list \<Rightarrow> event list" where
  "sortByDate clk evs = foldr (insertByDate clk) evs []"

text \<open>\<^verbatim>\<open>processCalendarItems(items)\<close>, lines 66-130.\<close>

definition processCalendarItems ::
  "clock \<Rightarrow> calendar_config option \<Rightarrow> (string \<Rightarrow> fetch_outcome) \<Rightarrow> calendar_item list
     \<Rightarrow> event list" where
  "processCalendarItems clk config fetch items =
     sortByDate clk (processLoop clk config fetch items [])"

text \<open>
  A clock at noon of 4 October 2024 (day 20000) in a zone one hour ahead of UTC, which
  reads the two times of an item of that morning, and the item.
\<close>

definition noonClock :: clock where
  "noonClock =
     \<lparr>now = 20000 * 86400000 + 11 * 3600000,
      parseDate = (\<lambda>text. if text = ''2024-10-04T09:00:00+01:00''
                           then Some (20000 * 86400000 + 8 * 3600000)
                           else if text = ''2024-10-04T10:00:00+01:00''
                           then Some (20000 * 86400000 + 9 * 3600000)
                           else None),
      startOfDay = (\<lambda>t. ((t + 3600000) div 86400000) * 86400000 - 3600000),
      formatTime = (\<lambda>t. if t = Some (20000 * 86400000 + 8 * 3600000) then ''09:00''
                         else ''10:00''),
      todayIso = ''2024-10-04''\<rparr>"

definition todaysItem :: calendar_item where
  "todaysItem =
     \<lparr>summary = Some ''Veterans Breakfast Club'', description' = Some ''breakfast and chat'',
      location' = Some ''Durham'',
      start = Some \<lparr>date' = None, dateTime = Some ''2024-10-04T09:00:00+01:00''\<rparr>,
      end' = Some \<lparr>date' = None, dateTime = Some ''2024-10-04T10:00:00+01:00''\<rparr>,
      recurringEventId = None\<rparr>"

definition initialState :: map_state where
  "initialState =
     \<lparr>events = [coffeeMorning, breakfastClub],
      filteredEvents = [coffeeMorning, breakfastClub]\<rparr>"

section \<open>Properties\<close>

subsection \<open>Hash values of the locations used below\<close>

lemma hash_Newcastle: "hashLoop 0 ''Newcastle upon Tyne, UK'' = 73478180"
  by code_simp

lemma hash_Hebburn: "hashLoop 0 ''Hebburn'' = - 1834126796"
  by code_simp

lemma rem_Newcastle:
  "sint (73478180 :: 32 word) smod 1000 = 180"
  "sint (signed_drop_bit 10 (73478180 :: 32 word)) smod 1000 = 756"
  by code_simp+

lemma rem_Hebburn: "sint (- 1834126796 :: 32 word) smod 1000 = - 796"
  by code_simp

lemma generateUniqueCoordinates_Newcastle:
  "generateUniqueCoordinates ''Newcastle upon Tyne, UK'' \<lparr>lat = 54.9783, lng = - 1.6178\<rparr>
     = \<lparr>lat = 54.97574, lng = - 1.615752\<rparr>"
  unfolding generateUniqueCoordinates_def hash_Newcastle Let_def
  by (simp add: latOffset_def lngOffset_def rem_Newcastle)

text \<open>
  The range of the two offsets over all hash values: the remainder of a negative hash is
  negative, so the offsets lie between \<open>-0.012\<close> and \<open>0.004\<close>.
\<close>

lemma latOffset_range: "- 0.012 < latOffset h \<and> latOffset h < 0.004"
proof -
  have "sint h smod 1000 \<in> {- \<bar>1000\<bar> + 1..\<bar>1000\<bar> - 1}"
    by (rule smod_int_range) simp
  then have "- 1000 < sint h smod 1000" "sint h smod 1000 < 1000" by auto
  then have "- 1000 < real_of_int (sint h smod 1000)" "real_of_int (sint h smod 1000) < 1000"
    by linarith+
  then show ?thesis by (simp add: latOffset_def)
qed

lemma lngOffset_range: "- 0.012 < lngOffset h \<and> lngOffset h < 0.004"
proof -
  let ?k = "sint (signed_drop_bit 10 h)"
  have "?k smod 1000 \<in> {- \<bar>1000\<bar> + 1..\<bar>1000\<bar> - 1}"
    by (rule smod_int_range) simp
  then have "- 1000 < ?k smod 1000" "?k smod 1000 < 1000" by auto
  then have "- 1000 < real_of_int (?k smod 1000)" "real_of_int (?k smod 1000) < 1000"
    by linarith+
  then show ?thesis by (simp add: lngOffset_def)
qed

text \<open>For a hash that is not negative the offset stays within 0.004 degrees.\<close>

lemma latOffset_nonneg_hash: "0 \<le> sint h \<Longrightarrow> \<bar>latOffset h\<bar> \<le> 0.004"
proof -
  assume "0 \<le> sint h"
  then have "0 \<le> sint h smod 1000" "sint h smod 1000 < 1000"
    using smod_int_compares(1,2) [of "sint h" 1000] by simp_all
  then have "0 \<le> real_of_int (sint h smod 1000)" "real_of_int (sint h smod 1000) < 1000"
    by linarith+
  then have "- 0.004 \<le> latOffset h" "latOffset h \<le> 0.004"
    by (simp_all add: latOffset_def)
  then show ?thesis by (simp add: abs_le_iff)
qed

subsection \<open>Location resolver\<close>

text \<open>
  Without a configured geocoder no request is made: the result is the hash coordinate
  and does not depend on the network.
\<close>

lemma getCoordinatesForLocation_without_geocoding:
  "\<not> geocodingEnabled config \<Longrightarrow>
     getCoordinatesForLocation config fetch loc venueName
       = Inr (generateUniqueCoordinates loc (fallbackCoords config))"
  by (simp add: getCoordinatesForLocation_def)

text \<open>
  C1. The claim: a location whose lowercase-trimmed form is a key of the Known Location
  table resolves to the table's coordinates, before any geocoding and without a hash
  offset; "Newcastle upon Tyne, UK" resolves to exactly (54.9783, -1.6178).
  \<^verbatim>\<open>getCoordinatesForLocation\<close> of \<^verbatim>\<open>script.js\<close> consults no table. Under the
  configuration of \<^verbatim>\<open>config.example.js\<close> (no geocoding key, so no request is made) the
  location resolves to the default region moved by the hash offset, which is not the
  coordinate the claim names.
\<close>

theorem getCoordinatesForLocation_Newcastle_hashed:
  "getCoordinatesForLocation (Some exampleConfig) fetch ''Newcastle upon Tyne, UK'' venueName
     = Inr \<lparr>lat = 54.97574, lng = - 1.615752\<rparr>
   \<and> getCoordinatesForLocation (Some exampleConfig) fetch ''Newcastle upon Tyne, UK'' venueName
     \<noteq> Inr \<lparr>lat = 54.9783, lng = - 1.6178\<rparr>"
proof -
  have en: "geocodingEnabled (Some exampleConfig) = False"
    by (simp add: geocodingEnabled_def exampleConfig_def)
  have fb: "fallbackCoords (Some exampleConfig) = \<lparr>lat = 54.9783, lng = - 1.6178\<rparr>"
    by (simp add: fallbackCoords_def exampleConfig_def)
  have eq: "getCoordinatesForLocation (Some exampleConfig) fetch ''Newcastle upon Tyne, UK'' venueName
     = Inr \<lparr>lat = 54.97574, lng = - 1.615752\<rparr>"
    unfolding getCoordinatesForLocation_def en fb generateUniqueCoordinates_Newcastle by simp
  show ?thesis unfolding eq by simp
qed

text \<open>
  C5. The claim: the hash fallback moves the base coordinate by at most 0.004 degrees on
  each axis. For the location "Hebburn" the hash is negative, its remainder is -796 and
  the latitude moves by -0.010368 degrees, whatever the base coordinate.
\<close>

theorem generateUniqueCoordinates_Hebburn_offset:
  "lat (generateUniqueCoordinates ''Hebburn'' b) - lat b = - 0.010368
   \<and> \<not> \<bar>lat (generateUniqueCoordinates ''Hebburn'' b) - lat b\<bar> \<le> 0.004"
  unfolding generateUniqueCoordinates_def hash_Hebburn Let_def
  by (simp add: latOffset_def rem_Hebburn)

text \<open>
  C6. Location resolution always succeeds: for every configuration, every behaviour of
  the network and every location string \<^verbatim>\<open>getCoordinatesForLocation\<close> returns a
  coordinate, and whenever the geocoder raises an error the coordinate returned is the
  hash fallback around the default region.
\<close>

theorem getCoordinatesForLocation_always_succeeds:
  "(\<exists>c. getCoordinatesForLocation config fetch loc venueName = Inr c)
   \<and> (\<forall>e. geocodeWithGoogle fetch loc venueName = Inl e \<longrightarrow>
          getCoordinatesForLocation config fetch loc venueName
            = Inr (generateUniqueCoordinates loc (fallbackCoords config)))"
proof (cases "geocodingEnabled config")
  case False
  then show ?thesis by (simp add: getCoordinatesForLocation_def)
next
  case True
  show ?thesis
  proof (cases "geocodeWithGoogle fetch loc venueName")
    case (Inl e)
    with True show ?thesis by (simp add: getCoordinatesForLocation_def)
  next
    case (Inr googleCoords)
    with True show ?thesis by (simp add: getCoordinatesForLocation_def)
  qed
qed

theorem getCoordinatesForLocation_always_succeeds_witness:
  "geocodeWithGoogle (\<lambda>a. NotOk 500) ''Durham'' None = Inl (HttpError 500)
   \<and> getCoordinatesForLocation
        (Some \<lparr>ENABLE_GEOCODING = True, GEOCODING_API_KEY = Some ''k'', DEFAULT_REGION = None\<rparr>)
        (\<lambda>a. NotOk 500) ''Durham'' None
       = Inr (generateUniqueCoordinates ''Durham''
           (fallbackCoords
             (Some \<lparr>ENABLE_GEOCODING = True, GEOCODING_API_KEY = Some ''k'', DEFAULT_REGION = None\<rparr>)))"
proof -
  have h: "geocodeWithGoogle (\<lambda>a. NotOk 500) ''Durham'' None = Inl (HttpError 500)"
    by (simp add: geocodeWithGoogle_def)
  from getCoordinatesForLocation_always_succeeds
    [of "Some \<lparr>ENABLE_GEOCODING = True, GEOCODING_API_KEY = Some ''k'', DEFAULT_REGION = None\<rparr>"
        "\<lambda>a. NotOk 500" "''Durham''" None] h
  show ?thesis by blast
qed

subsection \<open>Categorizer\<close>

text \<open>
  C7. For the title "Clay Pigeon Shooting Morning" and the description "breakfast provided
  before shoot" \<^verbatim>\<open>categorizeEvent\<close> returns the tags ["sport"] with primary tag "sport":
  the combined text contains "breakfast" and also "clay pigeon", which suppresses the
  breakfast-club rule, and the sport rule matches.
\<close>

theorem categorizeEvent_clay_pigeon:
  "categorizeEvent ''Clay Pigeon Shooting Morning'' ''breakfast provided before shoot''
     = \<lparr>tags = [''sport''], primary = ''sport''\<rparr>
   \<and> includes_str (toLowerCase ''Clay Pigeon Shooting Morning'' @ '' ''
         @ toLowerCase ''breakfast provided before shoot'') ''breakfast''
   \<and> includes_str (toLowerCase ''Clay Pigeon Shooting Morning'' @ '' ''
         @ toLowerCase ''breakfast provided before shoot'') ''clay pigeon''"
proof (intro conjI)
  show "categorizeEvent ''Clay Pigeon Shooting Morning'' ''breakfast provided before shoot''
     = \<lparr>tags = [''sport''], primary = ''sport''\<rparr>"
    by code_simp
  show "includes_str (toLowerCase ''Clay Pigeon Shooting Morning'' @ '' ''
         @ toLowerCase ''breakfast provided before shoot'') ''breakfast''"
    by code_simp
  show "includes_str (toLowerCase ''Clay Pigeon Shooting Morning'' @ '' ''
         @ toLowerCase ''breakfast provided before shoot'') ''clay pigeon''"
    by code_simp
qed

subsection \<open>Sanitizer\<close>


lemma includes_str_Nil [simp]: "includes_str s []"
  by (cases s) auto




lemma trim_decomp: "\<exists>a b. s = a @ trim s @ b"
proof -
  let ?t = "dropWhile isSpace s"
  have "s = takeWhile isSpace s @ ?t" by simp
  moreover have "rev ?t = takeWhile isSpace (rev ?t) @ dropWhile isSpace (rev ?t)" by simp
  then have "?t = trim s @ rev (takeWhile isSpace (rev ?t))"
    unfolding trim_def by (metis rev_append rev_rev_ident)
  ultimately show ?thesis by metis
qed



lemma trim_idem: "trim (trim s) = trim s"
proof -
  define t where "t = dropWhile isSpace s"
  define u where "u = dropWhile isSpace (rev t)"
  have tr: "trim s = rev u" by (simp add: trim_def t_def u_def)
  have b: "dropWhile isSpace (rev u) = rev u"
  proof (cases "u = []")
    case True
    then show ?thesis by simp
  next
    case False
    have "rev t = takeWhile isSpace (rev t) @ u" by (simp add: u_def)
    then have t: "t = rev u @ rev (takeWhile isSpace (rev t))"
      by (metis rev_append rev_rev_ident)
    have ru: "rev u \<noteq> []" using False by simp
    then have tne: "t \<noteq> []" using t by auto
    have "hd t = hd (rev u)" using t ru by (metis hd_append2)
    moreover have "\<not> isSpace (hd t)" using tne unfolding t_def by (rule hd_dropWhile)
    ultimately show ?thesis using ru by (cases "rev u") auto
  qed
  have a: "dropWhile isSpace u = u" by (simp add: u_def dropWhile_idem)
  have "trim (rev u) = rev (dropWhile isSpace (rev (dropWhile isSpace (rev u))))"
    by (simp add: trim_def)
  also have "\<dots> = rev u" by (simp add: b a)
  finally show ?thesis by (simp add: tr)
qed


lemma replaceAll_absent: "a \<notin> set s \<Longrightarrow> replaceAll (a # w) rep s = s"
  by (induction s) auto











lemma set_stripTags: "set (stripTags s) \<subseteq> set s"
proof (induction s rule: stripTags.induct)
  case 1
  then show ?case by simp
next
  case (2 c cs)
  show ?case
  proof (cases "c = CHR ''<'' \<and> CHR ''>'' \<in> set cs")
    case True
    have "set (tl (dropWhile (\<lambda>x. x \<noteq> CHR ''>'') cs)) \<subseteq> set cs"
      by (metis list.set_sel(2) set_dropWhileD subsetI tl_Nil)
    with 2(1) [OF True] True show ?thesis by auto
  next
    case False
    with 2(2) [OF False] show ?thesis by auto
  qed
qed

lemma stripTags_no_tag: "\<not> hasTag (stripTags s)"
proof (induction s rule: stripTags.induct)
  case 1
  then show ?case by simp
next
  case (2 c cs)
  show ?case
  proof (cases "c = CHR ''<'' \<and> CHR ''>'' \<in> set cs")
    case True
    with 2(1) [OF True] show ?thesis by simp
  next
    case False
    have eq: "stripTags (c # cs) = c # stripTags cs" using False by auto
    have "\<not> (c = CHR ''<'' \<and> CHR ''>'' \<in> set (stripTags cs))"
      using False set_stripTags [of cs] by auto
    with 2(2) [OF False] show ?thesis unfolding eq by simp
  qed
qed


lemma hasTag_appendI1: "hasTag a \<Longrightarrow> hasTag (a @ b)"
  by (induction a) auto

lemma hasTag_appendI2: "hasTag b \<Longrightarrow> hasTag (a @ b)"
  by (induction a) auto

lemma hasTag_trim: "hasTag (trim s) \<Longrightarrow> hasTag s"
proof -
  assume h: "hasTag (trim s)"
  obtain a b where s: "s = a @ trim s @ b" using trim_decomp by blast
  have "hasTag (a @ trim s @ b)"
    by (intro hasTag_appendI2 hasTag_appendI1 h)
  with s show ?thesis by simp
qed




lemma sanitiseText_no_amp:
  assumes "CHR ''&'' \<notin> set t" and "t \<noteq> []"
  shows "sanitiseText (Some t) = trim (stripTags t)"
proof -
  have "CHR ''&'' \<notin> set (stripTags t)" using assms(1) set_stripTags [of t] by auto
  then show ?thesis using assms(2) by (simp add: sanitiseText_def replaceAll_absent)
qed


lemma trim_Nil: "trim [] = []"
  by (simp add: trim_def)

lemma sanitiseText_trimmed: "trim (sanitiseText t) = sanitiseText t"
  by (cases t) (simp_all add: sanitiseText_def trim_idem trim_Nil)

lemma sanitiseText_no_tag:
  assumes "CHR ''&'' \<notin> set x"
  shows "\<not> hasTag (sanitiseText (Some x))"
proof (cases "x = []")
  case True
  then show ?thesis by (simp add: sanitiseText_def)
next
  case False
  with assms have "sanitiseText (Some x) = trim (stripTags x)" by (rule sanitiseText_no_amp)
  then show ?thesis using stripTags_no_tag hasTag_trim by metis
qed

text \<open>
  In \<^verbatim>\<open>sanitiseText\<close> of \<^verbatim>\<open>script.js\<close> the entities are decoded after the tags are
  removed, so a tag that is entity-encoded in the input is decoded into the text.
\<close>

lemma sanitiseText_encoded_tag: "sanitiseText (Some ''&lt;b&gt;x'') = ''<b>x''"
  by code_simp

text \<open>
  C3. The claim: for every input string \<^verbatim>\<open>sanitizeText\<close> returns a string with no
  markup tags and with the five entities decoded. \<^verbatim>\<open>sanitizeText\<close> of
  \<^verbatim>\<open>js/utils.js\<close> escapes the text through the element and then turns the escapes
  back: the tag of \<^verbatim>\<open><b>x</b>\<close> is still in the output and the entity \<^verbatim>\<open>&lt;\<close> is
  returned as it came. On the same two inputs \<^verbatim>\<open>sanitiseText\<close> of \<^verbatim>\<open>script.js\<close>
  removes the tag and decodes the entity.
\<close>

theorem sanitizeText_keeps_tags:
  "sanitizeText (Some ''<b>x</b>'') = ''<b>x</b>''
   \<and> hasTag (sanitizeText (Some ''<b>x</b>''))
   \<and> sanitiseText (Some ''<b>x</b>'') = ''x''
   \<and> sanitizeText (Some ''&lt;'') = ''&lt;''
   \<and> sanitiseText (Some ''&lt;'') = ''<''"
proof (intro conjI)
  show a: "sanitizeText (Some ''<b>x</b>'') = ''<b>x</b>''" by code_simp
  show "hasTag (sanitizeText (Some ''<b>x</b>''))" unfolding a by simp
  show "sanitiseText (Some ''<b>x</b>'') = ''x''" by code_simp
  show "sanitizeText (Some ''&lt;'') = ''&lt;''" by code_simp
  show "sanitiseText (Some ''&lt;'') = ''<''" by code_simp
qed




subsection \<open>Postcode geocoder\<close>

lemma clean_TS28: "toUpperCase (trim (collapseSpaces ''TS28'')) = ''TS28''"
  by code_simp

lemma TS28_not_full:
  "\<not> rxTest spacedPostcodeRegex ''TS28''"
  "\<not> rxTest compactPostcodeRegex (removeSpaces ''TS28'')"
  by code_simp+

text \<open>Whatever the query and the services, a postcode that is found comes with 15 km.\<close>

lemma geocodePostcode_radius:
  "geocodePostcode config google nominatim postcode = Some found \<Longrightarrow> radius found = 15"
  by (auto simp: geocodePostcode_def geocodePostcodeTry_def nominatimLookup_def Let_def
      split: sum.splits if_splits fetch_outcome.splits nominatim_outcome.splits option.splits
        list.splits geo_result.splits)

text \<open>
  C2. The claim: a partial postcode is resolved with a radius of 25 km, and the query
  "TS28" yields 25 km. \<^verbatim>\<open>geocodePostcode\<close> sets \<^verbatim>\<open>searchRadius\<close> to 15 and never
  changes it: for "TS28", which \<^verbatim>\<open>isPostcode\<close> accepts and which is flagged as partial,
  the radius returned with the place that Nominatim finds is 15.
\<close>

theorem geocodePostcode_TS28_radius:
  "isPostcode ''TS28''
   \<and> geocodePostcode None google (\<lambda>q. NOk [\<lparr>lat = 54.72, lng = - 1.37\<rparr>]) ''TS28''
       = Some \<lparr>lat = 54.72, lng = - 1.37, radius = 15, isPartial = True\<rparr>"
proof
  show "isPostcode ''TS28''" by code_simp
  show "geocodePostcode None google (\<lambda>q. NOk [\<lparr>lat = 54.72, lng = - 1.37\<rparr>]) ''TS28''
       = Some \<lparr>lat = 54.72, lng = - 1.37, radius = 15, isPartial = True\<rparr>"
    unfolding geocodePostcode_def geocodePostcodeTry_def Let_def clean_TS28
    by (simp add: TS28_not_full postcodeGeocodingEnabled_def nominatimLookup_def)
qed

subsection \<open>Filter and sort engine\<close>

text \<open>
  The distance between two points of one meridian is the arc between them: with the
  longitudes equal the haversine term of the longitudes vanishes.
\<close>

lemma calculateDistance_meridian:
  assumes "0 \<le> d" "d < 180"
  shows "calculateDistance la lo (la + d) lo = 6371 * (d * (pi / 180))"
    and "calculateDistance (la + d) lo la lo = 6371 * (d * (pi / 180))"
proof -
  define x where "x = d * (pi / 180) / 2"
  have x0: "0 \<le> x" using assms by (simp add: x_def)
  have "d * (pi / 180) < 180 * (pi / 180)" using assms by (simp add: pi_gt_zero)
  then have x1: "x < pi / 2" by (simp add: x_def)
  have s: "0 \<le> sin x" using x0 x1 by (intro sin_ge_zero) (auto intro: order.trans)
  have c: "0 < cos x" using x0 x1 by (intro cos_gt_zero_pi) auto
  have sq1: "sqrt (sin x * sin x) = sin x" using s by (simp add: real_sqrt_mult_self)
  have "1 - sin x * sin x = cos x * cos x"
    using sin_cos_squared_add [of x] by (simp add: power2_eq_square algebra_simps)
  then have sq2: "sqrt (1 - sin x * sin x) = cos x" using c by (simp add: real_sqrt_mult_self)
  have "arctan (tan x) = x" using x0 x1 by (intro arctan_tan) auto
  then have at: "atan2 (sin x) (cos x) = x"
    using c by (simp add: atan2_def tan_def)
  have fin: "6371 * (2 * x) = 6371 * (d * (pi / 180))" by (simp add: x_def)
  have dl: "toRadians (la + d - la) / 2 = x" by (simp add: toRadians_def x_def)
  have dl': "toRadians (la - (la + d)) / 2 = - x" by (simp add: toRadians_def x_def)
  have dg: "toRadians (lo - lo) = 0" by (simp add: toRadians_def)
  have "calculateDistance la lo (la + d) lo
      = 6371 * (2 * atan2 (sqrt (sin x * sin x)) (sqrt (1 - sin x * sin x)))"
    unfolding calculateDistance_def Let_def dl dg by simp
  also have "\<dots> = 6371 * (2 * x)" by (simp only: sq1 sq2 at)
  finally show "calculateDistance la lo (la + d) lo = 6371 * (d * (pi / 180))"
    using fin by simp
  have "calculateDistance (la + d) lo la lo
      = 6371 * (2 * atan2 (sqrt (sin x * sin x)) (sqrt (1 - sin x * sin x)))"
    unfolding calculateDistance_def Let_def dl' dg by simp
  also have "\<dots> = 6371 * (2 * x)" by (simp only: sq1 sq2 at)
  finally show "calculateDistance (la + d) lo la lo = 6371 * (d * (pi / 180))"
    using fin by simp
qed

text \<open>The three searches of the examples, evaluated step by step.\<close>

lemma distance_TS28_coffee:
  "calculateDistance (109 / 2) (- (3 / 2)) (111 / 2) (- (3 / 2)) = 6371 * (pi / 180)"
  using calculateDistance_meridian(1) [of 1 "109 / 2" "- (3 / 2)"] by simp

lemma distance_TS28_breakfast:
  "calculateDistance (109 / 2) (- (3 / 2)) (549 / 10) (- (3 / 2)) = 6371 * (pi / 450)"
  using calculateDistance_meridian(1) [of "2 / 5" "109 / 2" "- (3 / 2)"] by simp

lemma distance_NE1_breakfast:
  "calculateDistance 55 (- (3 / 2)) (549 / 10) (- (3 / 2)) = 6371 * (pi / 1800)"
  using calculateDistance_meridian(2) [of "1 / 10" "549 / 10" "- (3 / 2)"] by simp

lemma distance_bounds:
  "\<not> 6371 * (pi / 180) \<le> (15::real)"
  "\<not> 6371 * (pi / 450) \<le> (15::real)"
  "6371 * (pi / 1800) \<le> (15::real)"
  "\<not> 6371 * (pi / 180) \<le> 6371 * (pi / 1800)"
  "\<not> 6371 * pi \<le> 2700"
  "\<not> 6371 * pi \<le> 6750"
  "6371 * pi \<le> 27000"
  using pi_ge_two pi_less_4 by simp_all

lemma query_TS28: "trim (toLowerCase ''TS28'') = ''ts28''" "isPostcode ''ts28''"
  "toUpperCase (trim (collapseSpaces ''ts28'')) = ''TS28''"
  by code_simp+

lemma query_NE1: "trim (toLowerCase ''NE1'') = ''ne1''" "isPostcode ''ne1''"
  "toUpperCase (trim (collapseSpaces ''ne1'')) = ''NE1''"
  "\<not> rxTest spacedPostcodeRegex ''NE1''"
  "\<not> rxTest compactPostcodeRegex (removeSpaces ''NE1'')"
  by code_simp+

lemma query_coffee: "trim (toLowerCase ''coffee'') = ''coffee''" "\<not> isPostcode ''coffee''"
  by code_simp+

lemma geocode_ts28:
  "geocodePostcode None (\<lambda>q. Rejected) meridianNominatim ''ts28''
     = Some \<lparr>lat = 54.5, lng = - 1.5, radius = 15, isPartial = True\<rparr>"
  unfolding geocodePostcode_def geocodePostcodeTry_def Let_def query_TS28
  by (simp add: TS28_not_full postcodeGeocodingEnabled_def nominatimLookup_def meridianNominatim_def)

lemma geocode_ne1:
  "geocodePostcode None (\<lambda>q. Rejected) meridianNominatim ''ne1''
     = Some \<lparr>lat = 55, lng = - 1.5, radius = 15, isPartial = True\<rparr>"
  unfolding geocodePostcode_def geocodePostcodeTry_def Let_def query_NE1
  by (simp add: query_NE1 postcodeGeocodingEnabled_def nominatimLookup_def meridianNominatim_def)

lemma textMatches_annotated [simp]:
  "textMatches q (ev\<lparr>searchDistance := a, searchRadius := b, isPartialPostcode := c\<rparr>)
     = textMatches q ev"
  by (simp add: textMatches_def)

lemma text_ts28: "\<not> textMatches ''ts28'' coffeeMorning" "\<not> textMatches ''ts28'' breakfastClub"
  by code_simp+

lemma text_coffee: "textMatches ''coffee'' coffeeMorning" "\<not> textMatches ''coffee'' breakfastClub"
  by code_simp+

lemma text_ne1: "textMatches ''ne1'' coffeeMorning" "\<not> textMatches ''ne1'' breakfastClub"
  by code_simp+

lemma place: "lat coffeeMorning = 55.5" "lng coffeeMorning = - 1.5"
  "lat breakfastClub = 54.9" "lng breakfastClub = - 1.5"
  by (simp_all add: coffeeMorning_def breakfastClub_def)

lemma after_TS28:
  "search ''TS28'' initialState
   = \<lparr>events =
        [coffeeMorning\<lparr>searchDistance := Some (6371 * (pi / 180)),
           searchRadius := Some 15, isPartialPostcode := Some True\<rparr>,
         breakfastClub\<lparr>searchDistance := Some (6371 * (pi / 450)),
           searchRadius := Some 15, isPartialPostcode := Some True\<rparr>],
      filteredEvents = []\<rparr>"
  unfolding search_def filterEvents_def Let_def initialState_def
  by (simp add: query_TS28 geocode_ts28 matchEvent_def text_ts28 place Let_def
      distance_TS28_coffee distance_TS28_breakfast distance_bounds filterEventsByDate_def)

lemma after_coffee:
  "search ''coffee'' (search ''TS28'' initialState)
   = \<lparr>events =
        [coffeeMorning\<lparr>searchDistance := Some (6371 * (pi / 180)),
           searchRadius := Some 15, isPartialPostcode := Some True\<rparr>,
         breakfastClub\<lparr>searchDistance := Some (6371 * (pi / 450)),
           searchRadius := Some 15, isPartialPostcode := Some True\<rparr>],
      filteredEvents =
        [coffeeMorning\<lparr>searchDistance := Some (6371 * (pi / 180)),
           searchRadius := Some 15, isPartialPostcode := Some True\<rparr>]\<rparr>"
  unfolding after_TS28
  unfolding search_def filterEvents_def Let_def
  by (simp add: query_coffee matchEvent_def text_coffee Let_def filterEventsByDate_def)

lemma after_NE1:
  "search ''NE1'' (search ''TS28'' initialState)
   = \<lparr>events =
        [coffeeMorning\<lparr>searchDistance := Some (6371 * (pi / 180)),
           searchRadius := Some 15, isPartialPostcode := Some True\<rparr>,
         breakfastClub\<lparr>searchDistance := Some (6371 * (pi / 1800)),
           searchRadius := Some 15, isPartialPostcode := Some True\<rparr>],
      filteredEvents =
        [breakfastClub\<lparr>searchDistance := Some (6371 * (pi / 1800)),
           searchRadius := Some 15, isPartialPostcode := Some True\<rparr>,
         coffeeMorning\<lparr>searchDistance := Some (6371 * (pi / 180)),
           searchRadius := Some 15, isPartialPostcode := Some True\<rparr>]\<rparr>"
  unfolding after_TS28
  unfolding search_def filterEvents_def Let_def
  by (simp add: query_NE1 geocode_ne1 matchEvent_def text_ne1 place Let_def
      distance_NE1_breakfast distance_bounds filterEventsByDate_def distanceKey_def)

text \<open>
  What one pass does to the annotations. A pass that is no postcode search leaves every
  event as it was. In a postcode search an event found by the text search is left as it
  was too, so that it sorts with distance 0 exactly when it carried no distance before;
  the result is sorted by the distance key, and an event with key 0 stands before every
  event with a positive key.
\<close>

lemma matchEvent_text_search: "snd (matchEvent q False sc cf df ev) = ev"
  by (simp add: matchEvent_def Let_def)

lemma filterEvents_frame:
  assumes "\<not> isPostcode (trim (toLowerCase (searchInput inputs)))"
  shows "events (filterEvents config google nominatim f w inputs st) = events st"
  using assms by (simp add: filterEvents_def Let_def matchEvent_text_search comp_def)

lemma matchEvent_text_match:
  "q \<noteq> [] \<Longrightarrow> textMatches q ev \<Longrightarrow> snd (matchEvent q p sc cf df ev) = ev"
  by (simp add: matchEvent_def Let_def)

lemma filterEvents_sorted:
  assumes "isPostcode (trim (toLowerCase (searchInput inputs)))"
    and "geocodePostcode config google nominatim (trim (toLowerCase (searchInput inputs))) = Some sc"
    and "trim (toLowerCase (searchInput inputs)) \<noteq> []"
  shows "sorted (map distanceKey
           (filteredEvents (filterEvents config google nominatim f w inputs st)))"
  using assms by (simp add: filterEvents_def Let_def)

lemma sorted_zero_before_positive:
  assumes "sorted (map k xs)" "i < length xs" "j < length xs"
    and "k (xs ! j) = (0::real)" "0 < k (xs ! i)"
  shows "j < i"
proof (rule ccontr)
  assume "\<not> j < i"
  then have "i \<le> j" by simp
  then have "map k xs ! i \<le> map k xs ! j" using assms(1,3) by (simp add: sorted_iff_nth_mono)
  then show False using assms by simp
qed

text \<open>
  C9. The claim: the search annotations are cleared or overwritten on the next search,
  so that after a pass whose query is no location search no event keeps an annotation
  of an earlier pass. A search for the postcode "TS28" writes the distance to both
  events; the search for "coffee" that follows is no postcode search and changes
  neither, so the event it shows still carries the distance to "TS28", and so does the
  event it filters out.
\<close>

theorem filterEvents_keeps_stale_annotation:
  "\<not> isPostcode (trim (toLowerCase ''coffee''))
   \<and> map searchDistance (events initialState) = [None, None]
   \<and> map searchDistance (filteredEvents (search ''coffee'' (search ''TS28'' initialState)))
       = [Some (6371 * (pi / 180))]
   \<and> map searchDistance (events (search ''coffee'' (search ''TS28'' initialState)))
       = [Some (6371 * (pi / 180)), Some (6371 * (pi / 450))]"
proof (intro conjI)
  show "\<not> isPostcode (trim (toLowerCase ''coffee''))" by (simp add: query_coffee)
  show "map searchDistance (events initialState) = [None, None]"
    by (simp add: initialState_def coffeeMorning_def breakfastClub_def)
  show "map searchDistance (filteredEvents (search ''coffee'' (search ''TS28'' initialState)))
       = [Some (6371 * (pi / 180))]"
    unfolding after_coffee by simp
  show "map searchDistance (events (search ''coffee'' (search ''TS28'' initialState)))
       = [Some (6371 * (pi / 180)), Some (6371 * (pi / 450))]"
    unfolding after_coffee by simp
qed

text \<open>
  C10. The claim: in a postcode search an event that matches the text search gets no
  distance, the sort reads its missing distance as 0, and so it comes before every event
  with a positive recorded distance. After the search for "TS28" the search for "NE1"
  finds the first event by its title and the second by its distance; the first still
  carries the distance to "TS28", which is the larger one, and is sorted behind the
  second.
\<close>

theorem filterEvents_sorts_text_match_by_stale_distance:
  "isPostcode (trim (toLowerCase ''NE1''))
   \<and> textMatches (trim (toLowerCase ''NE1'')) coffeeMorning
   \<and> \<not> textMatches (trim (toLowerCase ''NE1'')) breakfastClub
   \<and> map eid (filteredEvents (search ''NE1'' (search ''TS28'' initialState))) = [2, 1]
   \<and> map searchDistance (filteredEvents (search ''NE1'' (search ''TS28'' initialState)))
       = [Some (6371 * (pi / 1800)), Some (6371 * (pi / 180))]"
proof (intro conjI)
  show "isPostcode (trim (toLowerCase ''NE1''))" by (simp add: query_NE1)
  show "textMatches (trim (toLowerCase ''NE1'')) coffeeMorning" by (simp add: query_NE1 text_ne1)
  show "\<not> textMatches (trim (toLowerCase ''NE1'')) breakfastClub"
    by (simp add: query_NE1 text_ne1)
  show "map eid (filteredEvents (search ''NE1'' (search ''TS28'' initialState))) = [2, 1]"
    unfolding after_NE1 by (simp add: coffeeMorning_def breakfastClub_def)
  show "map searchDistance (filteredEvents (search ''NE1'' (search ''TS28'' initialState)))
       = [Some (6371 * (pi / 1800)), Some (6371 * (pi / 180))]"
    unfolding after_NE1 by simp
qed

subsection \<open>Event normalizer\<close>

text \<open>The date check: an item dated before today is skipped.\<close>

lemma processLoop_skips_past:
  "beforeToday clk item \<Longrightarrow>
     processLoop clk config fetch (item # items) acc = processLoop clk config fetch items acc"
  by simp

text \<open>No item gets through \<^verbatim>\<open>transformCalendarItem\<close>, so the loop never pushes an event.\<close>

lemma processLoop_empty: "processLoop clk config fetch items [] = []"
  by (induction items) (simp_all add: transformCalendarItem_def sanitiseHtml_def)

lemma processCalendarItems_empty: "processCalendarItems clk config fetch items = []"
  by (simp add: processCalendarItems_def processLoop_empty sortByDate_def)

text \<open>
  C8. The claim: an item dated before today is dropped and an item dated today is kept,
  also when its time has passed. The item of the example is not excluded, its date is
  today's, its start lies before the clock's time, and it is not in the output: for
  every batch the output of \<^verbatim>\<open>processCalendarItems\<close> is empty, since the call of
  \<^verbatim>\<open>this.sanitiseHtml\<close> raises for every item and the item is skipped.
\<close>

theorem processCalendarItems_drops_todays_item:
  "\<not> isExcludedRecurringEvent (recurringEventId todaysItem)
   \<and> \<not> beforeToday noonClock todaysItem
   \<and> eventDateOnly noonClock todaysItem = Some (today noonClock)
   \<and> jsLess (eventDateTime noonClock todaysItem) (Some (now noonClock))
   \<and> processCalendarItems noonClock config fetch [todaysItem] = []"
proof (intro conjI)
  show "\<not> isExcludedRecurringEvent (recurringEventId todaysItem)"
    by (simp add: isExcludedRecurringEvent_def todaysItem_def)
  show "\<not> beforeToday noonClock todaysItem"
    by (simp add: beforeToday_def jsLess_def eventDateOnly_def eventDate_def today_def
        noonClock_def todaysItem_def startDate_def startDateTime_def truthy_def)
  show "eventDateOnly noonClock todaysItem = Some (today noonClock)"
    by (simp add: eventDateOnly_def eventDate_def today_def
        noonClock_def todaysItem_def startDate_def startDateTime_def truthy_def)
  show "jsLess (eventDateTime noonClock todaysItem) (Some (now noonClock))"
    by (simp add: jsLess_def eventDateTime_def noonClock_def todaysItem_def
        startDateTime_def truthy_def)
  show "processCalendarItems noonClock config fetch [todaysItem] = []"
    by (rule processCalendarItems_empty)
qed

end
